theory Spec2Isabelle
  imports Main "HOL-Library.Char_ord" "HOL-Library.List_Lexorder"
begin

section \<open>Values of the page\<close>

text \<open>
  The two scripts of the leave form (the form script, lines 1-222 of
  \<^verbatim>\<open>static/js/leave-form.js\<close>, and the calendar script, lines 222-485) keep
  their state in a few script variables and in the elements of the page. The page's
  template is not part of the sources; every element the scripts look up is taken to
  exist, and its content is one field of the record \<open>page\<close> below.

  A JavaScript \<open>Date\<close> is its time value: the milliseconds since the epoch, an integer.
  Comparison (\<open><\<close>) and subtraction of two dates work on the time values. A \<open>null\<close>
  variable is \<open>None\<close>; a \<open>Date\<close> object is always truthy, a string is truthy iff it is
  not empty. The value of an element is a string, the empty string where jQuery's
  \<open>val()\<close> gives null. The notes, which the form trims, are a list of UTF-16 code
  units; the other strings are ASCII, a \<open>char\<close> for each code unit.
\<close>

type_synonym jsdate = int

text \<open>The time value of a \<open>Date\<close> is at most \<open>8.64e15\<close> milliseconds from the epoch.\<close>

definition validDate :: "jsdate \<Rightarrow> bool" where
  "validDate t \<longleftrightarrow> \<bar>t\<bar> \<le> 8640000000000000"

text \<open>\<open>new Date(t)\<close> for a number \<open>t\<close>; \<open>None\<close> is the invalid date.\<close>

definition newDate :: "int \<Rightarrow> jsdate option" where
  "newDate t = (if validDate t then Some t else None)"

definition msPerDay :: int where
  "msPerDay = 1000 * 60 * 60 * 24"

text \<open>
  Numbers are IEEE doubles. The difference of two time values is an integer below
  \<open>2^54\<close> in magnitude. Up to \<open>2^53\<close> it is a double. Above, the doubles are the even
  integers: an odd difference lies halfway between two of them and is rounded to the
  one with the even significand, the multiple of 4.
\<close>

definition toDouble :: "int \<Rightarrow> int" where
  "toDouble x =
     (if \<bar>x\<bar> \<le> 2 ^ 53 then x
      else if even x then x
      else if (x - 1) mod 4 = 0 then x - 1
      else x + 1)"

text \<open>\<open>a - b\<close> on two dates.\<close>

definition dateDiff :: "jsdate \<Rightarrow> jsdate \<Rightarrow> int" where
  "dateDiff a b = toDouble (a - b)"

text \<open>
  \<open>Math.ceil(x / msPerDay)\<close> for a difference \<open>x\<close> of two dates. The quotient is below
  \<open>2^28\<close>. Where it is below \<open>2^27\<close>, half the distance of two doubles is \<open>2^-27\<close>, less
  than \<open>1 / msPerDay\<close>; above, \<open>x\<close> is even, a quotient that is not an integer is
  \<open>2 / msPerDay\<close> or more away from the next integer and half the distance of two
  doubles is \<open>2^-26\<close>, less than that. So the division never rounds to or across an
  integer, and the ceiling of the double quotient is the ceiling of the exact one.
\<close>

definition ceilDays :: "int \<Rightarrow> int" where
  "ceilDays x = - ((- x) div msPerDay)"

subsection \<open>Numbers and dates as strings\<close>

definition digitChar :: "nat \<Rightarrow> char" where
  "digitChar n = char_of (of_char (CHR ''0'') + n)"

fun natToString :: "nat \<Rightarrow> string" where
  "natToString n =
     (if n < 10 then [digitChar n] else natToString (n div 10) @ [digitChar (n mod 10)])"

declare natToString.simps [simp del]

text \<open>What assigning the integer \<open>i\<close> to the \<open>value\<close> of an input stores.\<close>

definition numToString :: "int \<Rightarrow> string" where
  "numToString i = (if i < 0 then CHR ''-'' # natToString (nat (- i)) else natToString (nat i))"

definition padNat :: "nat \<Rightarrow> nat \<Rightarrow> string" where
  "padNat w n = replicate (w - length (natToString n)) (CHR ''0'') @ natToString n"

text \<open>
  The proleptic Gregorian date (year, month, day) of a day number counted from
  1970-01-01, as \<open>toISOString\<close> computes it in UTC.
\<close>

definition civilFromDays :: "int \<Rightarrow> int \<times> int \<times> int" where
  "civilFromDays z0 =
     (let z = z0 + 719468;
          era = z div 146097;
          doe = z mod 146097;
          yoe = (doe - doe div 1460 + doe div 36524 - doe div 146096) div 365;
          doy = doe - (365 * yoe + yoe div 4 - yoe div 100);
          mp = (5 * doy + 2) div 153;
          d = doy - (153 * mp + 2) div 5 + 1;
          m = (if mp < 10 then mp + 3 else mp - 9);
          y = yoe + era * 400 + (if m \<le> 2 then 1 else 0)
      in (y, m, d))"

text \<open>\<open>date.toISOString().split('T')[0]\<close>: the UTC calendar day of the time value.\<close>

definition isoDate :: "jsdate \<Rightarrow> string" where
  "isoDate t =
     (case civilFromDays (t div msPerDay) of (y, m, d) \<Rightarrow>
        (if 0 \<le> y \<and> y \<le> 9999 then padNat 4 (nat y)
         else (if y < 0 then CHR ''-'' else CHR ''+'') # padNat 6 (nat \<bar>y\<bar>))
        @ ''-'' @ padNat 2 (nat m) @ ''-'' @ padNat 2 (nat d))"

subsection \<open>String helpers of the scripts\<close>

type_synonym code_unit = nat

text \<open>
  The white space and the line terminators of ECMAScript: TAB, LF, VT, FF, CR, SP,
  NBSP, U+1680, U+2000 to U+200A, U+2028, U+2029, U+202F, U+205F, U+3000 and U+FEFF.
\<close>

definition isWhitespace :: "code_unit \<Rightarrow> bool" where
  "isWhitespace c \<longleftrightarrow>
     c \<in> {0x09, 0x0A, 0x0B, 0x0C, 0x0D, 0x20, 0xA0, 0x1680, 0x2028, 0x2029, 0x202F, 0x205F,
          0x3000, 0xFEFF}
     \<or> (0x2000 \<le> c \<and> c \<le> 0x200A)"

text \<open>\<open>String.prototype.trim\<close>.\<close>

definition trim :: "code_unit list \<Rightarrow> code_unit list" where
  "trim s = rev (dropWhile isWhitespace (rev (dropWhile isWhitespace s)))"

text \<open>\<open>String.prototype.toLowerCase\<close> on ASCII.\<close>

definition lowerChar :: "char \<Rightarrow> char" where
  "lowerChar c =
     (if CHR ''A'' \<le> c \<and> c \<le> CHR ''Z'' then char_of (of_char c + (32::nat)) else c)"

definition toLowerCase :: "string \<Rightarrow> string" where
  "toLowerCase s = map lowerChar s"

text \<open>\<open>name.split('.').pop()\<close>: what follows the last dot, the whole name if it has none.\<close>

definition splitPop :: "char \<Rightarrow> string \<Rightarrow> string" where
  "splitPop sep s = rev (takeWhile (\<lambda>c. c \<noteq> sep) (rev s))"

text \<open>\<open>Array.prototype.join\<close>.\<close>

fun join :: "string \<Rightarrow> string list \<Rightarrow> string" where
  "join sep [] = []"
| "join sep [x] = x"
| "join sep (x # y # ys) = x @ sep @ join sep (y # ys)"

subsection \<open>The JavaScript Map of the selected dates\<close>

text \<open>
  \<open>selectedDates\<close> is a \<open>Map\<close> from date strings to \<open>true\<close>. A \<open>Map\<close> keeps its keys in
  insertion order: an association list, where \<open>set\<close> on a key already there replaces
  the value in place and appends otherwise.
\<close>

type_synonym jsmap = "(string \<times> bool) list"

definition mapKeys :: "jsmap \<Rightarrow> string list" where
  "mapKeys m = map fst m"

definition mapHas :: "jsmap \<Rightarrow> string \<Rightarrow> bool" where
  "mapHas m k \<longleftrightarrow> k \<in> set (mapKeys m)"

definition mapSet :: "string \<Rightarrow> bool \<Rightarrow> jsmap \<Rightarrow> jsmap" where
  "mapSet k v m =
     (if mapHas m k then map (\<lambda>(k', v'). if k' = k then (k', v) else (k', v')) m
      else m @ [(k, v)])"

definition mapDelete :: "string \<Rightarrow> jsmap \<Rightarrow> jsmap" where
  "mapDelete k m = filter (\<lambda>(k', v'). k' \<noteq> k) m"

definition mapSize :: "jsmap \<Rightarrow> nat" where
  "mapSize m = length m"

subsection \<open>Elements\<close>

text \<open>A chosen \<open>File\<close>: its \<open>name\<close>, \<open>size\<close> in bytes and \<open>type\<close>.\<close>

record js_file =
  fileName :: string
  fileSize :: nat
  fileType :: string

datatype read_kind = AsDataURL | AsArrayBuffer

text \<open>The content of the attachment preview area.\<close>

datatype preview =
    NoPreview
  | Loading
  | ImageCard js_file
  | PdfCard js_file
  | LoadError

text \<open>
  The content of a date label. \<open>toLocaleDateString\<close> is the browser's; the label
  keeps the date it was given (\<open>None\<close> is the invalid date).
\<close>

datatype display =
    PlainText string
  | PlainDate "jsdate option"
  | Muted string
  | StartLabel jsdate
  | EndLabel jsdate

text \<open>A background event of the simple calendar: start, end, class name.\<close>

type_synonym calendar_event = "jsdate \<times> jsdate option \<times> string"

text \<open>What the calendar widget passes to \<open>dateClick\<close>.\<close>

record click_info =
  date :: jsdate
  dateStr :: string

record page =
  \<comment> \<open>variables of the calendar script\<close>
  startDate :: "jsdate option"
  endDate :: "jsdate option"
  selectedDates :: jsmap
  selecting :: bool
  simpleEvents :: "calendar_event list"
  \<comment> \<open>variables of the form script (its own \<open>startDate\<close> and \<open>endDate\<close>)\<close>
  formStartDate :: "string option"
  formEndDate :: "string option"
  \<comment> \<open>elements\<close>
  leaveType :: string
  modeSwitch :: bool
  notesInput :: "code_unit list"
  notesDisabled :: bool
  submitDisabled :: bool
  simpleMode :: bool
  advancedMode :: bool
  simpleDateInput :: string
  simpleEndDateInput :: string
  simpleDuration :: string
  simpleDateDisplay :: display
  simpleEndDateDisplay :: display
  simpleDurationSpan :: string
  durationAlertPrimary :: bool
  durationAlertLight :: bool
  dates :: string
  selectedDatesList :: "string list"
  noDateSelectedMessage :: bool
  datesList :: string
  simpleDatePicker :: string
  attachmentInput :: "js_file list"
  attachmentPreview :: preview
  readsStarted :: "(js_file \<times> read_kind) list"

section \<open>The calendar script\<close>

subsection \<open>Derived fields of the range selection\<close>

text \<open>
  \<open>updateDateDisplay(start, end)\<close>. With \<open>start\<close> null and \<open>end\<close> a date, the
  subtraction \<open>end - start\<close> reads null as 0.
\<close>

definition updateDateDisplay :: "jsdate option \<Rightarrow> jsdate option \<Rightarrow> page \<Rightarrow> page" where
  "updateDateDisplay start end s =
     (let s1 = (case start of
                  Some st \<Rightarrow> s\<lparr>simpleDateInput := isoDate st, simpleDateDisplay := StartLabel st\<rparr>
                | None \<Rightarrow> s\<lparr>simpleDateInput := [],
                            simpleDateDisplay := Muted ''Select start date''\<rparr>)
      in (case end of
            Some en \<Rightarrow>
              (let days = ceilDays (dateDiff en (case start of Some st \<Rightarrow> st | None \<Rightarrow> 0)) + 1
               in s1\<lparr>simpleEndDateInput := isoDate en,
                     simpleEndDateDisplay := EndLabel en,
                     simpleDuration := numToString days,
                     simpleDurationSpan := numToString days,
                     durationAlertLight := False,
                     durationAlertPrimary := True\<rparr>)
          | None \<Rightarrow>
              s1\<lparr>simpleEndDateInput := [],
                 simpleEndDateDisplay := Muted ''Select end date'',
                 simpleDurationSpan := ''0'',
                 durationAlertPrimary := False,
                 durationAlertLight := True\<rparr>))"

text \<open>\<open>highlightRange()\<close>: all background events are removed and drawn again.\<close>

definition highlightRange :: "page \<Rightarrow> page" where
  "highlightRange s =
     (let s1 = s\<lparr>selecting := True, simpleEvents := []\<rparr>;
          s2 = (case startDate s1 of
                  None \<Rightarrow> s1
                | Some st \<Rightarrow>
                    (let s3 = s1\<lparr>simpleEvents :=
                                 simpleEvents s1 @
                                   [(st, newDate (st + 24 * 60 * 60 * 1000), ''selected-start'')]\<rparr>
                     in (case endDate s3 of
                           None \<Rightarrow> s3
                         | Some en \<Rightarrow>
                             s3\<lparr>simpleEvents :=
                                  simpleEvents s3 @
                                    [(st, newDate (en + 24 * 60 * 60 * 1000), ''selected-range'')]\<rparr>)))
      in s2\<lparr>selecting := False\<rparr>)"

text \<open>
  \<open>validateForm()\<close> of the calendar script: it enables or disables the submit
  button.
\<close>

definition hasValidDates :: "page \<Rightarrow> bool" where
  "hasValidDates s =
     (if modeSwitch s then mapSize (selectedDates s) > 0
      else startDate s \<noteq> None \<and> endDate s \<noteq> None)"

definition validateForm :: "page \<Rightarrow> page" where
  "validateForm s = s\<lparr>submitDisabled := (leaveType s = [] \<or> \<not> hasValidDates s)\<rparr>"

subsection \<open>Clicks on the simple calendar\<close>

text \<open>
  \<open>dateClick\<close> of the simple calendar. \<open>today\<close> is the time value of
  \<open>new Date()\<close> after \<open>setHours(0, 0, 0, 0)\<close>: the local midnight of the day of the click.
\<close>

definition simpleDateClick :: "jsdate \<Rightarrow> click_info \<Rightarrow> page \<Rightarrow> page" where
  "simpleDateClick today info s =
     (let clickedDate = date info in
      if clickedDate < today then s
      else
        validateForm
          (if startDate s = None \<or> (startDate s \<noteq> None \<and> endDate s \<noteq> None) then
             (let s1 = s\<lparr>startDate := Some clickedDate, endDate := None\<rparr>;
                  s2 = s1\<lparr>simpleEndDateInput := []\<rparr>;
                  s3 = s2\<lparr>simpleDateInput := isoDate clickedDate\<rparr>;
                  s4 = updateDateDisplay (startDate s3) None s3;
                  s5 = highlightRange s4
              in s5\<lparr>simpleEndDateDisplay := Muted ''Now select end date''\<rparr>)
           else
             (case startDate s of
                None \<Rightarrow> s
              | Some st \<Rightarrow>
                  (let s1 = (if clickedDate < st
                             then s\<lparr>endDate := Some st, startDate := Some clickedDate\<rparr>
                             else s\<lparr>endDate := Some clickedDate\<rparr>);
                       s2 = (case startDate s1 of
                               Some a \<Rightarrow> s1\<lparr>simpleDateInput := isoDate a\<rparr> | None \<Rightarrow> s1);
                       s3 = (case endDate s2 of
                               Some b \<Rightarrow> s2\<lparr>simpleEndDateInput := isoDate b\<rparr> | None \<Rightarrow> s2);
                       s4 = updateDateDisplay (startDate s3) (endDate s3) s3
                   in highlightRange s4))))"

text \<open>\<open>clearDateSelection()\<close>, also the handler of the clear button.\<close>

definition clearDateSelection :: "page \<Rightarrow> page" where
  "clearDateSelection s =
     (let s1 = s\<lparr>startDate := None, endDate := None\<rparr>;
          s2 = updateDateDisplay None None s1
      in s2\<lparr>simpleEvents := []\<rparr>)"

subsection \<open>The set of dates of the advanced mode\<close>

text \<open>
  \<open>updateSelectedDatesDisplay()\<close>. \<open>sort()\<close> orders strings by their code units, which
  is the lexicographic order of \<open>char list\<close>.
\<close>

definition updateSelectedDatesDisplay :: "page \<Rightarrow> page" where
  "updateSelectedDatesDisplay s =
     (let datesList = sort (mapKeys (selectedDates s));
          s1 = s\<lparr>dates := join '';'' datesList\<rparr>;
          s2 = s1\<lparr>selectedDatesList := []\<rparr>
      in if length datesList > 0
         then s2\<lparr>selectedDatesList := selectedDatesList s2 @ datesList,
                 noDateSelectedMessage := False\<rparr>
         else s2\<lparr>noDateSelectedMessage := True\<rparr>)"

text \<open>\<open>dateClick\<close> of the advanced calendar: it reads \<open>info.dateStr\<close> only.\<close>

definition advancedDateClick :: "click_info \<Rightarrow> page \<Rightarrow> page" where
  "advancedDateClick info s =
     (if \<not> mapHas (selectedDates s) (dateStr info)
      then validateForm
             (updateSelectedDatesDisplay
                (s\<lparr>selectedDates := mapSet (dateStr info) True (selectedDates s)\<rparr>))
      else s)"

text \<open>\<open>window.removeDate(date)\<close>.\<close>

definition removeDate :: "string \<Rightarrow> page \<Rightarrow> page" where
  "removeDate d s =
     validateForm
       (updateSelectedDatesDisplay (s\<lparr>selectedDates := mapDelete d (selectedDates s)\<rparr>))"

subsection \<open>The mode switch\<close>

text \<open>
  The \<open>change\<close> handler of the calendar script on \<open>#modeSwitch\<close>. It runs after the
  checkbox has taken its new state, which it reads.
\<close>

definition modeSwitchChange :: "page \<Rightarrow> page" where
  "modeSwitchChange s =
     (let isAdvanced = modeSwitch s;
          s1 = s\<lparr>simpleMode := \<not> isAdvanced\<rparr>;
          s2 = s1\<lparr>advancedMode := isAdvanced\<rparr>;
          s3 = (if isAdvanced then clearDateSelection s2
                else updateSelectedDatesDisplay (s2\<lparr>selectedDates := []\<rparr>))
      in validateForm s3)"

text \<open>The user flips the switch: the checkbox changes, then the handler runs.\<close>

definition toggleModeSwitch :: "page \<Rightarrow> page" where
  "toggleModeSwitch s = modeSwitchChange (s\<lparr>modeSwitch := \<not> modeSwitch s\<rparr>)"

section \<open>The form script\<close>

subsection \<open>The attachment\<close>


text \<open>The reader's \<open>onload\<close> and \<open>onerror\<close> callbacks.\<close>

definition readerOnload :: "js_file \<Rightarrow> page \<Rightarrow> page" where
  "readerOnload f s =
     (let ext = toLowerCase (splitPop (CHR ''.'') (fileName f));
          isImage = ext \<in> set [''png'', ''jpg'', ''jpeg'', ''gif'', ''bmp'']
      in s\<lparr>attachmentPreview :=
            (if isImage then ImageCard f else if ext = ''pdf'' then PdfCard f else NoPreview)\<rparr>)"

definition readerOnerror :: "page \<Rightarrow> page" where
  "readerOnerror s = s\<lparr>attachmentPreview := LoadError\<rparr>"

text \<open>The click handler of \<open>#clearAttachment\<close>.\<close>

definition clearAttachment :: "page \<Rightarrow> page" where
  "clearAttachment s = s\<lparr>attachmentInput := [], attachmentPreview := NoPreview\<rparr>"


subsection \<open>The standalone range selection\<close>






subsection \<open>Validation\<close>

text \<open>\<open>validateLeaveType()\<close>.\<close>

definition validateLeaveType :: "page \<Rightarrow> page" where
  "validateLeaveType s =
     (if leaveType s \<noteq> []
      then s\<lparr>submitDisabled := False, notesDisabled := False\<rparr>
      else s\<lparr>submitDisabled := True, notesDisabled := True\<rparr>)"



text \<open>
  The \<open>change\<close> handler of the form script on \<open>#modeSwitch\<close>: it shows one block and
  hides the other. The \<open>resize\<close> event it sends to the calendar widget stays inside the
  widget.
\<close>

definition formModeSwitchChange :: "page \<Rightarrow> page" where
  "formModeSwitchChange s =
     (if modeSwitch s
      then s\<lparr>simpleMode := False, advancedMode := True\<rparr>
      else s\<lparr>advancedMode := False, simpleMode := True\<rparr>)"

section \<open>Sequences of clicks, and the correspondence of the two range selections\<close>






section \<open>Local calendar days\<close>

text \<open>
  The inclusive count of whole days from start to end: the number of calendar days
  from the day of the start to the day of the end. The calendar gives local
  midnights, so the days are local days: the time zone is \<open>offset\<close>, the milliseconds
  that local time is ahead of UTC at a time value.
\<close>

definition localDay :: "(jsdate \<Rightarrow> int) \<Rightarrow> jsdate \<Rightarrow> int" where
  "localDay offset t = (t + offset t) div msPerDay"

definition inclusiveDays :: "(jsdate \<Rightarrow> int) \<Rightarrow> jsdate \<Rightarrow> jsdate \<Rightarrow> int" where
  "inclusiveDays offset start end = localDay offset end - localDay offset start + 1"

text \<open>
  New York in the autumn of 2024: four hours behind UTC until 2024-11-03 06:00 UTC,
  when daylight saving time ends, and five hours behind from then on.
\<close>

definition easternOffset :: "jsdate \<Rightarrow> int" where
  "easternOffset t = (if t < 1730613600000 then - 4 * 3600000 else - 5 * 3600000)"

section \<open>The exported set of dates\<close>

text \<open>
  The keys of \<open>selectedDates\<close> are distinct and the \<open>#dates\<close> field holds them in
  ascending order, joined by semicolons.
\<close>

definition exportedSorted :: "page \<Rightarrow> bool" where
  "exportedSorted s \<longleftrightarrow>
     distinct (mapKeys (selectedDates s)) \<and>
     dates s = join '';'' (sort (mapKeys (selectedDates s)))"

section \<open>Example pages\<close>

text \<open>A page with nothing selected and nothing entered, in simple mode.\<close>

definition examplePage :: page where
  "examplePage =
     \<lparr>startDate = None, endDate = None, selectedDates = [], selecting = False,
      simpleEvents = [], formStartDate = None, formEndDate = None,
      leaveType = [], modeSwitch = False, notesInput = [], notesDisabled = False,
      submitDisabled = True, simpleMode = True, advancedMode = False,
      simpleDateInput = [], simpleEndDateInput = [], simpleDuration = [],
      simpleDateDisplay = Muted ''Select start date'',
      simpleEndDateDisplay = Muted ''Select end date'',
      simpleDurationSpan = ''0'', durationAlertPrimary = False, durationAlertLight = True,
      dates = [], selectedDatesList = [], noDateSelectedMessage = True,
      datesList = [], simpleDatePicker = [], attachmentInput = [],
      attachmentPreview = NoPreview, readsStarted = []\<rparr>"

text \<open>Clicks on 2024-01-01, 2024-01-05 and 2023-12-31 (midnight UTC).\<close>

definition jan1 :: click_info where
  "jan1 = \<lparr>date = 1704067200000, dateStr = ''2024-01-01''\<rparr>"

definition jan5 :: click_info where
  "jan5 = \<lparr>date = 1704412800000, dateStr = ''2024-01-05''\<rparr>"

definition dec31 :: click_info where
  "dec31 = \<lparr>date = 1703980800000, dateStr = ''2023-12-31''\<rparr>"

text \<open>
  A leave type chosen and the range 2024-01-01 to 2024-01-05 selected in simple mode,
  the notes still empty.
\<close>

definition rangePage :: page where
  "rangePage =
     examplePage\<lparr>leaveType := ''annual'', startDate := Some (date jan1),
       endDate := Some (date jan5), simpleDatePicker := ''2024-01-01''\<rparr>"

text \<open>
  Clicks on 2024-11-02 and 2024-11-04 in New York: the dates are the local midnights,
  04:00 UTC and 05:00 UTC.
\<close>

definition nov2 :: click_info where
  "nov2 = \<lparr>date = 1730520000000, dateStr = ''2024-11-02''\<rparr>"

definition nov4 :: click_info where
  "nov4 = \<lparr>date = 1730696400000, dateStr = ''2024-11-04''\<rparr>"






section \<open>Properties\<close>

lemmas mode_defs =
  toggleModeSwitch_def modeSwitchChange_def clearDateSelection_def updateDateDisplay_def
  validateForm_def updateSelectedDatesDisplay_def hasValidDates_def

lemmas example_defs = examplePage_def rangePage_def jan1_def jan5_def dec31_def


subsection \<open>The mode switch\<close>

text \<open>
  C1. The claim that a toggle of the mode switch leaves both selections as they were
  fails: the handler of the calendar script resets the mode that is left. From the
  range 2024-01-01 to 2024-01-05 in simple mode, the toggle leaves no start date.
\<close>

theorem mode_switch_keeps_selection_counterexample:
  "startDate (toggleModeSwitch rangePage) \<noteq> startDate rangePage"
  by (simp add: mode_defs example_defs Let_def)

text \<open>
  C1, amended. A toggle into the advanced mode empties the range selection and leaves
  the set of dates as it was; a toggle into the simple mode empties the set of dates and
  leaves the range as it was. After two toggles in a row both selections are empty.
  The handler of the form script on the same switch changes what is shown and
  nothing else, so it leaves both selections as they were.
\<close>

theorem mode_switch_resets_left_mode:
  "startDate (toggleModeSwitch s) = (if modeSwitch s then startDate s else None) \<and>
   endDate (toggleModeSwitch s) = (if modeSwitch s then endDate s else None) \<and>
   selectedDates (toggleModeSwitch s) = (if modeSwitch s then [] else selectedDates s) \<and>
   startDate (toggleModeSwitch (toggleModeSwitch s)) = None \<and>
   endDate (toggleModeSwitch (toggleModeSwitch s)) = None \<and>
   selectedDates (toggleModeSwitch (toggleModeSwitch s)) = [] \<and>
   startDate (formModeSwitchChange s) = startDate s \<and>
   endDate (formModeSwitchChange s) = endDate s \<and>
   selectedDates (formModeSwitchChange s) = selectedDates s \<and>
   formModeSwitchChange s = s\<lparr>simpleMode := \<not> modeSwitch s, advancedMode := modeSwitch s\<rparr>"
  by (simp add: mode_defs formModeSwitchChange_def Let_def)

theorem mode_switch_resets_left_mode_witness:
  "startDate (toggleModeSwitch rangePage) = None \<and>
   endDate (toggleModeSwitch rangePage) = None \<and>
   selectedDates (toggleModeSwitch rangePage) = [] \<and>
   selectedDates (toggleModeSwitch (toggleModeSwitch rangePage)) = []"
  using mode_switch_resets_left_mode [of rangePage]
  by (simp add: example_defs)

subsection \<open>The submit button\<close>

text \<open>
  C2. The claim that the button is enabled only with notes that are not empty fails:
  with a leave type and a complete range, \<open>validateForm\<close> enables the button while the
  notes are empty.
\<close>

theorem submit_enabled_counterexample:
  "\<not> submitDisabled (validateForm rangePage) \<and> trim (notesInput rangePage) = []"
  by (simp add: validateForm_def hasValidDates_def example_defs trim_def)

text \<open>
  C2, amended. After \<open>validateForm\<close> the submit button is enabled if and only if a
  leave type is selected and the selection of the current mode is valid: at least one
  date in advanced mode, a start and an end date in simple mode. After
  \<open>validateLeaveType\<close> it is enabled if and only if a leave type is selected.
\<close>

theorem submit_enabled_iff:
  "(\<not> submitDisabled (validateForm s)) =
     (leaveType s \<noteq> [] \<and>
      (if modeSwitch s then selectedDates s \<noteq> []
       else startDate s \<noteq> None \<and> endDate s \<noteq> None)) \<and>
   (\<not> submitDisabled (validateLeaveType s)) = (leaveType s \<noteq> [])"
  by (auto simp add: validateForm_def hasValidDates_def mapSize_def validateLeaveType_def)

theorem submit_enabled_iff_witness:
  "\<not> submitDisabled (validateForm rangePage) \<and>
   submitDisabled (validateForm examplePage) \<and>
   \<not> submitDisabled (validateLeaveType rangePage)"
  using submit_enabled_iff [of rangePage] submit_enabled_iff [of examplePage]
  by (simp add: example_defs)

text \<open>
  C9. The claim that a recomputation of the validator changes nothing but the state of
  the submit button fails for \<open>validateLeaveType\<close>: with no leave type chosen it
  disables the notes field as well.
\<close>

theorem validator_touches_notes_counterexample:
  "notesDisabled (validateLeaveType examplePage) \<noteq> notesDisabled examplePage"
  by (simp add: validateLeaveType_def examplePage_def)

text \<open>
  C9, amended. \<open>validateForm\<close> changes the disabled state of the submit button and
  nothing else. \<open>validateLeaveType\<close> changes the disabled state of the submit button
  and sets the disabled state of the notes field to the same value, and nothing else.
\<close>

theorem validator_frame:
  "validateForm s = s\<lparr>submitDisabled := submitDisabled (validateForm s)\<rparr> \<and>
   validateLeaveType s =
     s\<lparr>submitDisabled := submitDisabled (validateLeaveType s),
       notesDisabled := submitDisabled (validateLeaveType s)\<rparr>"
  by (simp add: validateForm_def validateLeaveType_def)

theorem validator_frame_witness:
  "validateForm rangePage = rangePage\<lparr>submitDisabled := False\<rparr> \<and>
   validateLeaveType examplePage =
     examplePage\<lparr>submitDisabled := True, notesDisabled := True\<rparr>"
  using validator_frame [of rangePage] validator_frame [of examplePage]
  by (simp add: validateForm_def validateLeaveType_def hasValidDates_def example_defs)

subsection \<open>Submission\<close>




subsection \<open>The attachment\<close>



subsection \<open>Clicks on the simple calendar\<close>

lemmas click_defs =
  simpleDateClick_def Let_def updateDateDisplay_def highlightRange_def
  validateForm_def hasValidDates_def mapSize_def

text \<open>A click before today changes nothing on the simple calendar.\<close>

lemma simpleDateClick_past: "date info < today \<Longrightarrow> simpleDateClick today info s = s"
  by (simp add: simpleDateClick_def)

text \<open>The page after a click that starts a range, and after one that completes it.\<close>

lemma simpleDateClick_first:
  assumes "today \<le> date i" "startDate s = None \<or> endDate s \<noteq> None"
  shows "simpleDateClick today i s =
     s\<lparr>startDate := Some (date i), endDate := None, simpleEndDateInput := [],
       simpleDateInput := isoDate (date i), simpleDateDisplay := StartLabel (date i),
       simpleDurationSpan := ''0'', durationAlertPrimary := False, durationAlertLight := True,
       selecting := False,
       simpleEvents := [(date i, newDate (date i + 24 * 60 * 60 * 1000), ''selected-start'')],
       simpleEndDateDisplay := Muted ''Now select end date'',
       submitDisabled :=
         (leaveType s = [] \<or> modeSwitch s \<and> selectedDates s = [] \<or> \<not> modeSwitch s)\<rparr>"
  using assms by (auto simp add: click_defs)

lemma simpleDateClick_second:
  assumes "today \<le> date i" "startDate s = Some a" "endDate s = None"
  shows "simpleDateClick today i s =
     s\<lparr>startDate := Some (min a (date i)), endDate := Some (max a (date i)),
       simpleDateInput := isoDate (min a (date i)),
       simpleEndDateInput := isoDate (max a (date i)),
       simpleDateDisplay := StartLabel (min a (date i)),
       simpleEndDateDisplay := EndLabel (max a (date i)),
       simpleDuration :=
         numToString (ceilDays (dateDiff (max a (date i)) (min a (date i))) + 1),
       simpleDurationSpan :=
         numToString (ceilDays (dateDiff (max a (date i)) (min a (date i))) + 1),
       durationAlertLight := False, durationAlertPrimary := True,
       selecting := False,
       simpleEvents :=
         [(min a (date i), newDate (min a (date i) + 24 * 60 * 60 * 1000), ''selected-start''),
          (min a (date i), newDate (max a (date i) + 24 * 60 * 60 * 1000), ''selected-range'')],
       submitDisabled := (leaveType s = [] \<or> modeSwitch s \<and> selectedDates s = [])\<rparr>"
  using assms by (auto simp add: click_defs min_def max_def)

text \<open>
  C3. A click on a date before today is to be ignored in both modes. The simple
  calendar does so (\<open>simpleDateClick_past\<close>); the handler of the advanced calendar has
  no such guard. With today 2024-01-01, a click on 2023-12-31 in advanced mode puts
  that date into the selection and into the \<open>#dates\<close> field.
\<close>

theorem advanced_past_click_selects:
  "date dec31 < date jan1 \<and>
   selectedDates (advancedDateClick dec31 examplePage) = [(''2023-12-31'', True)] \<and>
   dates (advancedDateClick dec31 examplePage) = ''2023-12-31''"
  by (simp add: advancedDateClick_def example_defs mapHas_def mapKeys_def mapSet_def
      validateForm_def updateSelectedDatesDisplay_def)

text \<open>
  C4. For two dates \<open>d1 < d2\<close>, neither before today, and an empty range selection: the
  clicks \<open>d1\<close>, \<open>d2\<close> give the range from \<open>d1\<close> to \<open>d2\<close>, and the clicks \<open>d2\<close>, \<open>d1\<close>
  give the same page.
\<close>

theorem range_clicks_order_independent:
  assumes "date i1 < date i2" "today \<le> date i1" "startDate s = None" "endDate s = None"
  shows "startDate (simpleDateClick today i2 (simpleDateClick today i1 s)) = Some (date i1) \<and>
         endDate (simpleDateClick today i2 (simpleDateClick today i1 s)) = Some (date i2) \<and>
         simpleDateClick today i1 (simpleDateClick today i2 s) =
           simpleDateClick today i2 (simpleDateClick today i1 s)"
proof -
  let ?sa = "simpleDateClick today i1 s" and ?sb = "simpleDateClick today i2 s"
  have t2: "today \<le> date i2" using assms by simp
  have f1: "startDate s = None \<or> endDate s \<noteq> None" using assms by simp
  note a = simpleDateClick_first [OF assms(2) f1]
  note b = simpleDateClick_first [OF t2 f1]
  have sa: "startDate ?sa = Some (date i1)" "endDate ?sa = None" by (simp_all add: a)
  have sb: "startDate ?sb = Some (date i2)" "endDate ?sb = None" by (simp_all add: b)
  note A = simpleDateClick_second [OF t2 sa]
  note B = simpleDateClick_second [OF assms(2) sb]
  have m: "min (date i1) (date i2) = date i1" "max (date i1) (date i2) = date i2"
    "min (date i2) (date i1) = date i1" "max (date i2) (date i1) = date i2"
    using assms(1) by simp_all
  have 1: "startDate (simpleDateClick today i2 ?sa) = Some (date i1)"
    by (simp add: A m)
  have 2: "endDate (simpleDateClick today i2 ?sa) = Some (date i2)"
    by (simp add: A m)
  have 3: "simpleDateClick today i1 ?sb = simpleDateClick today i2 ?sa"
    unfolding A B m unfolding a b by simp
  from 1 2 3 show ?thesis by simp
qed

theorem range_clicks_order_independent_witness:
  "startDate (simpleDateClick (date jan1) jan5 (simpleDateClick (date jan1) jan1 examplePage))
     = Some (date jan1) \<and>
   endDate (simpleDateClick (date jan1) jan5 (simpleDateClick (date jan1) jan1 examplePage))
     = Some (date jan5) \<and>
   simpleDateClick (date jan1) jan1 (simpleDateClick (date jan1) jan5 examplePage) =
     simpleDateClick (date jan1) jan5 (simpleDateClick (date jan1) jan1 examplePage)"
proof -
  have "date jan1 < date jan5" "date jan1 \<le> date jan1"
    "startDate examplePage = None" "endDate examplePage = None"
    by (simp_all add: example_defs)
  from range_clicks_order_independent [OF this] show ?thesis .
qed

subsection \<open>The duration of a range\<close>

lemma msPerDay_pos: "0 < msPerDay"
  by (simp add: msPerDay_def)

lemma ceilDays_whole: "ceilDays (k * msPerDay) = k"
proof -
  have "(- k) * msPerDay div msPerDay = - k"
    using msPerDay_pos by (intro nonzero_mult_div_cancel_right) simp
  then show ?thesis by (simp add: ceilDays_def)
qed

lemma ceilDays_bounds: "(ceilDays x - 1) * msPerDay < x \<and> x \<le> ceilDays x * msPerDay"
proof -
  define q where "q = (- x) div msPerDay"
  define r where "r = (- x) mod msPerDay"
  have e: "- x = q * msPerDay + r" by (simp add: q_def r_def)
  have r: "0 \<le> r" "r < msPerDay" using msPerDay_pos by (simp_all add: r_def)
  have c: "ceilDays x = - q" by (simp add: ceilDays_def q_def)
  have "(- q - 1) * msPerDay = - (q * msPerDay) - msPerDay" by (simp add: algebra_simps)
  with e r show ?thesis unfolding c by simp
qed

lemma ceilDays_nonneg: "0 \<le> x \<Longrightarrow> 0 \<le> ceilDays x"
proof -
  assume "0 \<le> x"
  then have "(- x) div msPerDay \<le> 0 div msPerDay"
    using msPerDay_pos by (intro zdiv_mono1) simp_all
  then show ?thesis by (simp add: ceilDays_def)
qed

lemma dateDiff_exact:
  assumes "0 \<le> a" "validDate a" "0 \<le> b" "validDate b"
  shows "dateDiff a b = a - b"
proof -
  have "\<bar>a - b\<bar> \<le> 8640000000000000"
    using assms by (simp add: validDate_def)
  also have "(8640000000000000 :: int) \<le> 2 ^ 53" by simp
  finally show ?thesis by (simp add: dateDiff_def toDouble_def)
qed

text \<open>
  Two dates since 1970 that are a whole number \<open>k\<close> of days apart: the click that
  completes the range orders them and stores the duration \<open>k + 1\<close>.
\<close>

lemma completed_range_whole_days:
  assumes "startDate s = Some a" "endDate s = None" "today \<le> date i"
    and "0 \<le> a" "validDate a" "0 \<le> date i" "validDate (date i)"
    and "max a (date i) - min a (date i) = k * msPerDay"
  shows "startDate (simpleDateClick today i s) = Some (min a (date i))"
    "endDate (simpleDateClick today i s) = Some (max a (date i))"
    "simpleDuration (simpleDateClick today i s) = numToString (k + 1)"
proof -
  note c = simpleDateClick_second [OF assms(3) assms(1) assms(2)]
  have "dateDiff (max a (date i)) (min a (date i)) = max a (date i) - min a (date i)"
    using assms(4-7) by (intro dateDiff_exact) (simp_all add: min_def max_def)
  then have d: "ceilDays (dateDiff (max a (date i)) (min a (date i))) = k"
    by (simp add: assms(8) ceilDays_whole)
  show "startDate (simpleDateClick today i s) = Some (min a (date i))"
    "endDate (simpleDateClick today i s) = Some (max a (date i))"
    by (simp_all add: c)
  show "simpleDuration (simpleDateClick today i s) = numToString (k + 1)"
    by (simp add: c d)
qed

text \<open>
  The range from 2024-01-01 to 2024-01-05, midnight UTC, has the duration 5, and the
  same date clicked twice is a range of one day.
\<close>

lemma january_range_duration:
  "simpleDateInput (simpleDateClick (date jan1) jan5 (simpleDateClick (date jan1) jan1 examplePage))
     = ''2024-01-01'' \<and>
   simpleEndDateInput (simpleDateClick (date jan1) jan5 (simpleDateClick (date jan1) jan1 examplePage))
     = ''2024-01-05'' \<and>
   simpleDuration (simpleDateClick (date jan1) jan5 (simpleDateClick (date jan1) jan1 examplePage))
     = ''5'' \<and>
   startDate (simpleDateClick (date jan1) jan1 (simpleDateClick (date jan1) jan1 examplePage))
     = Some (date jan1) \<and>
   endDate (simpleDateClick (date jan1) jan1 (simpleDateClick (date jan1) jan1 examplePage))
     = Some (date jan1) \<and>
   simpleDuration (simpleDateClick (date jan1) jan1 (simpleDateClick (date jan1) jan1 examplePage))
     = ''1''"
proof -
  let ?t = "date jan1"
  let ?s = "simpleDateClick ?t jan1 examplePage"
  have f: "startDate examplePage = None \<or> endDate examplePage \<noteq> None"
    by (simp add: examplePage_def)
  have s: "startDate ?s = Some (date jan1)" "endDate ?s = None"
    by (simp_all add: simpleDateClick_first [OF order_refl f])
  have t5: "?t \<le> date jan5" by (simp add: example_defs)
  have v: "0 \<le> date jan1" "validDate (date jan1)" "0 \<le> date jan5" "validDate (date jan5)"
    by (simp_all add: example_defs validDate_def)
  have d5: "max (date jan1) (date jan5) - min (date jan1) (date jan5) = 4 * msPerDay"
    by (simp add: example_defs msPerDay_def)
  have d1: "max (date jan1) (date jan1) - min (date jan1) (date jan1) = 0 * msPerDay"
    by simp
  have n5: "numToString (4 + 1) = ''5''" by code_simp
  have n1: "numToString (0 + 1) = ''1''" by code_simp
  have 5: "simpleDuration (simpleDateClick ?t jan5 ?s) = ''5''"
    using completed_range_whole_days(3) [OF s t5 v d5] n5 by simp
  have 1: "startDate (simpleDateClick ?t jan1 ?s) = Some (date jan1)"
    "endDate (simpleDateClick ?t jan1 ?s) = Some (date jan1)"
    "simpleDuration (simpleDateClick ?t jan1 ?s) = ''1''"
    using completed_range_whole_days [OF s order_refl v(1,2) v(1,2) d1] n1 by simp_all
  have i1: "isoDate 1704067200000 = ''2024-01-01''" by code_simp
  have i5: "isoDate 1704412800000 = ''2024-01-05''" by code_simp
  have m: "min (date jan1) (date jan5) = 1704067200000"
    "max (date jan1) (date jan5) = 1704412800000"
    by (simp_all add: example_defs)
  have 2: "simpleDateInput (simpleDateClick ?t jan5 ?s) = ''2024-01-01''"
    "simpleEndDateInput (simpleDateClick ?t jan5 ?s) = ''2024-01-05''"
    by (simp_all add: simpleDateClick_second [OF t5 s] m i1 i5)
  from 5 1 2 show ?thesis by simp
qed

text \<open>The two clicks in New York, and the page after them.\<close>

lemma november_clicks:
  "startDate (simpleDateClick (date nov2) nov4 (simpleDateClick (date nov2) nov2 examplePage))
     = Some (date nov2)"
  "endDate (simpleDateClick (date nov2) nov4 (simpleDateClick (date nov2) nov2 examplePage))
     = Some (date nov4)"
  "simpleDuration (simpleDateClick (date nov2) nov4 (simpleDateClick (date nov2) nov2 examplePage))
     = ''4''"
proof -
  let ?t = "date nov2"
  let ?s = "simpleDateClick ?t nov2 examplePage"
  have f: "startDate examplePage = None \<or> endDate examplePage \<noteq> None"
    by (simp add: examplePage_def)
  have s: "startDate ?s = Some (date nov2)" "endDate ?s = None"
    by (simp_all add: simpleDateClick_first [OF order_refl f])
  have t4: "?t \<le> date nov4" by (simp add: nov2_def nov4_def)
  have m: "min (date nov2) (date nov4) = date nov2" "max (date nov2) (date nov4) = date nov4"
    by (simp_all add: nov2_def nov4_def)
  have c: "ceilDays (dateDiff (date nov4) (date nov2)) = 3"
    by (simp add: nov2_def nov4_def dateDiff_def toDouble_def ceilDays_def msPerDay_def)
  have n: "numToString (3 + 1) = ''4''" by code_simp
  note B = simpleDateClick_second [OF t4 s]
  show "startDate (simpleDateClick ?t nov4 ?s) = Some (date nov2)"
    "endDate (simpleDateClick ?t nov4 ?s) = Some (date nov4)"
    by (simp_all add: B m)
  show "simpleDuration (simpleDateClick ?t nov4 ?s) = ''4''"
    using n by (simp add: B m c)
qed

text \<open>
  C5. The duration of a completed range is to be the inclusive count of whole days.
  In New York the clicks on 2024-11-02 and 2024-11-04 give the local midnights of the
  two days, 49 hours apart since the clock is set back in between. The range is
  completed from the first to the second, the inclusive count of its days is 3, and
  the handler stores the duration 4.
\<close>

theorem clock_change_range_duration:
  "isoDate (date nov2 + easternOffset (date nov2)) = ''2024-11-02'' \<and>
   (date nov2 + easternOffset (date nov2)) mod msPerDay = 0 \<and>
   isoDate (date nov4 + easternOffset (date nov4)) = ''2024-11-04'' \<and>
   (date nov4 + easternOffset (date nov4)) mod msPerDay = 0 \<and>
   startDate (simpleDateClick (date nov2) nov4 (simpleDateClick (date nov2) nov2 examplePage))
     = Some (date nov2) \<and>
   endDate (simpleDateClick (date nov2) nov4 (simpleDateClick (date nov2) nov2 examplePage))
     = Some (date nov4) \<and>
   inclusiveDays easternOffset (date nov2) (date nov4) = 3 \<and>
   simpleDuration (simpleDateClick (date nov2) nov4 (simpleDateClick (date nov2) nov2 examplePage))
     = ''4''"
proof -
  have l: "date nov2 + easternOffset (date nov2) = 1730505600000"
    "date nov4 + easternOffset (date nov4) = 1730678400000"
    by (simp_all add: nov2_def nov4_def easternOffset_def)
  have i: "isoDate 1730505600000 = ''2024-11-02''" "isoDate 1730678400000 = ''2024-11-04''"
    by code_simp+
  have m: "(1730505600000 :: int) mod msPerDay = 0" "(1730678400000 :: int) mod msPerDay = 0"
    by (simp_all add: msPerDay_def)
  have d: "inclusiveDays easternOffset (date nov2) (date nov4) = 3"
    by (simp add: inclusiveDays_def localDay_def l msPerDay_def)
  from l i m d november_clicks show ?thesis by simp
qed

subsection \<open>The set of dates and its field\<close>

lemma mapKeys_mapSet:
  "mapKeys (mapSet k v m) = (if mapHas m k then mapKeys m else mapKeys m @ [k])"
  by (induction m) (auto simp add: mapSet_def mapKeys_def mapHas_def)

lemma mapKeys_mapDelete: "mapKeys (mapDelete k m) = removeAll k (mapKeys m)"
  by (induction m) (auto simp add: mapDelete_def mapKeys_def)

lemma distinct_mapSet: "distinct (mapKeys m) \<Longrightarrow> distinct (mapKeys (mapSet k v m))"
  by (simp add: mapKeys_mapSet mapHas_def)

lemma distinct_mapDelete: "distinct (mapKeys m) \<Longrightarrow> distinct (mapKeys (mapDelete k m))"
  by (simp add: mapKeys_mapDelete distinct_removeAll)

lemma updateSelectedDatesDisplay_fields:
  "selectedDates (updateSelectedDatesDisplay s) = selectedDates s"
  "dates (updateSelectedDatesDisplay s) = join '';'' (sort (mapKeys (selectedDates s)))"
  by (simp_all add: updateSelectedDatesDisplay_def Let_def)

lemma validateForm_fields:
  "selectedDates (validateForm s) = selectedDates s"
  "dates (validateForm s) = dates s"
  by (simp_all add: validateForm_def)

text \<open>A click on a date that is not selected yet appends it and rewrites the field.\<close>

lemma advancedDateClick_new:
  assumes "\<not> mapHas (selectedDates s) (dateStr i)"
  shows "selectedDates (advancedDateClick i s) = selectedDates s @ [(dateStr i, True)]"
    "dates (advancedDateClick i s) = join '';'' (sort (mapKeys (selectedDates s) @ [dateStr i]))"
  using assms
  by (simp_all add: advancedDateClick_def validateForm_fields updateSelectedDatesDisplay_fields
      mapSet_def mapKeys_def)

text \<open>
  \<open>exportedSorted\<close> says what it should: the field is the join of the one list that
  is ascending, has no duplicates and holds exactly the selected dates.
\<close>

lemma exportedSorted_iff:
  "exportedSorted s \<longleftrightarrow>
     distinct (mapKeys (selectedDates s)) \<and>
     (\<exists>ds. sorted ds \<and> distinct ds \<and> set ds = set (mapKeys (selectedDates s)) \<and>
           dates s = join '';'' ds)"
proof -
  have "ds = sort (mapKeys (selectedDates s))"
    if "distinct (mapKeys (selectedDates s))" "sorted ds" "distinct ds"
       "set ds = set (mapKeys (selectedDates s))" for ds
    using that by (intro sorted_distinct_set_unique) simp_all
  moreover have "sorted (sort (mapKeys (selectedDates s)))" by simp
  ultimately show ?thesis
    unfolding exportedSorted_def by (metis distinct_sort set_sort)
qed

text \<open>
  C8. On a page whose selected dates are distinct and whose \<open>#dates\<close> field is their
  ascending join, each operation of the advanced mode (a click that adds a date, the
  removal of a date, the change of the mode switch, which clears the set on the way to
  the simple mode) gives such a page again. The click adds its date, the removal takes
  its date away, the switch to the simple mode leaves no date.
\<close>

theorem set_operations_export_sorted:
  assumes "exportedSorted s"
  shows "exportedSorted (advancedDateClick i s) \<and>
         set (mapKeys (selectedDates (advancedDateClick i s))) =
           insert (dateStr i) (set (mapKeys (selectedDates s))) \<and>
         exportedSorted (removeDate d s) \<and>
         set (mapKeys (selectedDates (removeDate d s))) =
           set (mapKeys (selectedDates s)) - {d} \<and>
         exportedSorted (modeSwitchChange s) \<and>
         set (mapKeys (selectedDates (modeSwitchChange s))) =
           (if modeSwitch s then set (mapKeys (selectedDates s)) else {})"
proof -
  have 1: "exportedSorted (advancedDateClick i s)"
    using assms
    by (simp add: exportedSorted_def advancedDateClick_def validateForm_fields
        updateSelectedDatesDisplay_fields distinct_mapSet)
  have 2: "set (mapKeys (selectedDates (advancedDateClick i s))) =
           insert (dateStr i) (set (mapKeys (selectedDates s)))"
    by (auto simp add: advancedDateClick_def validateForm_fields
        updateSelectedDatesDisplay_fields mapKeys_mapSet mapHas_def)
  have 3: "exportedSorted (removeDate d s)"
    using assms
    by (simp add: exportedSorted_def removeDate_def validateForm_fields
        updateSelectedDatesDisplay_fields distinct_mapDelete)
  have 4: "set (mapKeys (selectedDates (removeDate d s))) =
           set (mapKeys (selectedDates s)) - {d}"
    by (auto simp add: removeDate_def validateForm_fields
        updateSelectedDatesDisplay_fields mapKeys_mapDelete)
  have 5: "exportedSorted (modeSwitchChange s)"
    using assms
    by (simp add: exportedSorted_def modeSwitchChange_def Let_def validateForm_fields
        updateSelectedDatesDisplay_fields clearDateSelection_def updateDateDisplay_def
        mapKeys_def)
  have 6: "set (mapKeys (selectedDates (modeSwitchChange s))) =
           (if modeSwitch s then set (mapKeys (selectedDates s)) else {})"
    by (simp add: modeSwitchChange_def Let_def validateForm_fields
        updateSelectedDatesDisplay_fields clearDateSelection_def updateDateDisplay_def
        mapKeys_def)
  from 1 2 3 4 5 6 show ?thesis by simp
qed

theorem set_operations_export_sorted_witness:
  "exportedSorted examplePage \<and>
   exportedSorted (advancedDateClick jan1 (advancedDateClick jan5 examplePage)) \<and>
   dates (advancedDateClick jan1 (advancedDateClick jan5 examplePage))
     = ''2024-01-01;2024-01-05'' \<and>
   exportedSorted (removeDate ''2024-01-05'' (advancedDateClick jan5 examplePage))"
proof -
  have 0: "exportedSorted examplePage"
    by (simp add: exportedSorted_def examplePage_def mapKeys_def)
  from set_operations_export_sorted [OF 0, where i = jan5]
  have 1: "exportedSorted (advancedDateClick jan5 examplePage)" by simp
  from set_operations_export_sorted [OF 1, where i = jan1 and d = "''2024-01-05''"]
  have 2: "exportedSorted (advancedDateClick jan1 (advancedDateClick jan5 examplePage))"
    "exportedSorted (removeDate ''2024-01-05'' (advancedDateClick jan5 examplePage))"
    by simp_all
  have a: "\<not> mapHas (selectedDates examplePage) (dateStr jan5)"
    by (simp add: examplePage_def mapHas_def mapKeys_def)
  have s1: "selectedDates (advancedDateClick jan5 examplePage) = [(dateStr jan5, True)]"
    using advancedDateClick_new(1) [OF a] by (simp add: examplePage_def)
  have b: "\<not> mapHas (selectedDates (advancedDateClick jan5 examplePage)) (dateStr jan1)"
    unfolding s1 by (simp add: mapHas_def mapKeys_def jan1_def jan5_def)
  have c: "join '';'' (sort [''2024-01-05'', ''2024-01-01'']) = ''2024-01-01;2024-01-05''"
    by code_simp
  have 3: "dates (advancedDateClick jan1 (advancedDateClick jan5 examplePage))
             = ''2024-01-01;2024-01-05''"
    using c advancedDateClick_new(2) [OF b] unfolding s1
    by (simp add: mapKeys_def jan1_def jan5_def)
  from 0 2 3 show ?thesis by simp
qed

subsection \<open>The two range selections\<close>








end
